theory Spec2Isabelle
  imports Complex_Main "HOL-Library.AList"
begin

section \<open>JavaScript values and strings\<close>

text \<open>
  Strings are lists of code units. The model covers the code units U+0000 to U+00FF
  (one \<^typ>\<open>char\<close> each); this range is closed under \<open>String.prototype.toLowerCase\<close>.
  Numbers are kept as reals; wherever the source formats a number as text through
  floating-point arithmetic, the text comes from the \<open>platform\<close> record below.
  A value of type \<open>any\<close> is plain data: undefined, a string, a number, an array or an
  object with its own properties, themselves plain data.
\<close>

datatype jsval =
    Undefined
  | Str string
  | Num real
  | Arr "jsval list"
  | Obj "(string \<times> jsval) list"

text \<open>A thrown value: an instance of \<open>Error\<close> with its message, or anything else.\<close>

datatype thrown = Error string | NonError

text \<open>Property read \<open>o.k\<close> on a \<open>Record<string, any>\<close>: a missing key reads as undefined.\<close>

definition getProp :: "(string \<times> jsval) list \<Rightarrow> string \<Rightarrow> jsval" where
  "getProp obj k = (case map_of obj k of None \<Rightarrow> Undefined | Some v \<Rightarrow> v)"

text \<open>Truthiness, as used by \<open>a || b\<close>.\<close>

fun truthy :: "jsval \<Rightarrow> bool" where
  "truthy Undefined = False"
| "truthy (Str s) = (s \<noteq> [])"
| "truthy (Num x) = (x \<noteq> 0)"
| "truthy (Arr xs) = True"
| "truthy (Obj kvs) = True"

definition js_or :: "jsval \<Rightarrow> jsval \<Rightarrow> jsval" where
  "js_or a b = (if truthy a then a else b)"

subsection \<open>Character classes\<close>

definition isUpper :: "char \<Rightarrow> bool" where
  "isUpper c = (let n = (of_char c :: nat) in
     (65 \<le> n \<and> n \<le> 90) \<or> (192 \<le> n \<and> n \<le> 222 \<and> n \<noteq> 215))"

definition lowerChar :: "char \<Rightarrow> char" where
  "lowerChar c = (if isUpper c then char_of ((of_char c :: nat) + 32) else c)"

text \<open>White space and line terminators: what \<open>trim\<close> strips and \<open>\s\<close> matches.\<close>

definition isSpace :: "char \<Rightarrow> bool" where
  "isSpace c = (let n = (of_char c :: nat) in (9 \<le> n \<and> n \<le> 13) \<or> n = 32 \<or> n = 160)"

definition isDigit :: "char \<Rightarrow> bool" where
  "isDigit c = (let n = (of_char c :: nat) in 48 \<le> n \<and> n \<le> 57)"

definition isWord :: "char \<Rightarrow> bool" where
  "isWord c = (let n = (of_char c :: nat) in
     (48 \<le> n \<and> n \<le> 57) \<or> (65 \<le> n \<and> n \<le> 90) \<or> n = 95 \<or> (97 \<le> n \<and> n \<le> 122))"

subsection \<open>String methods\<close>

definition toLowerCase :: "string \<Rightarrow> string" where
  "toLowerCase s = map lowerChar s"

definition trim :: "string \<Rightarrow> string" where
  "trim s = rev (dropWhile isSpace (rev (dropWhile isSpace s)))"

definition startsWith :: "string \<Rightarrow> string \<Rightarrow> bool" where
  "startsWith s p = (length p \<le> length s \<and> take (length p) s = p)"

definition endsWith :: "string \<Rightarrow> string \<Rightarrow> bool" where
  "endsWith s p = (length p \<le> length s \<and> drop (length s - length p) s = p)"

fun includes_str :: "string \<Rightarrow> string \<Rightarrow> bool" where
  "includes_str [] p = (p = [])"
| "includes_str (c # s) p = (startsWith (c # s) p \<or> includes_str s p)"

subsection \<open>Regular expressions\<close>

text \<open>
  The fragment of regular expressions the parser uses: literal text, \<open>\s+\<close>, \<open>\w+\<close>,
  \<open>\d+\<close>, sequencing, \<open>(...)?\<close> and numbered capture groups. \<open>rx\<close> lists every way
  the expression matches a prefix of the input, the preferred way first (quantifiers are
  greedy and backtrack), each with the rest of the input and the captures made.
\<close>

datatype cclass = Space | Word | Digit

datatype regex =
    Lit string
  | Plus cclass
  | Seq regex regex
  | Opt regex
  | Group nat regex

fun inClass :: "cclass \<Rightarrow> char \<Rightarrow> bool" where
  "inClass Space c = isSpace c"
| "inClass Word c = isWord c"
| "inClass Digit c = isDigit c"

type_synonym captures = "nat \<Rightarrow> string option"

fun rx :: "regex \<Rightarrow> string \<Rightarrow> captures \<Rightarrow> (string \<times> captures) list" where
  "rx (Lit l) s cs = (if startsWith s l then [(drop (length l) s, cs)] else [])"
| "rx (Plus k) s cs =
     map (\<lambda>n. (drop n s, cs)) (rev [1 ..< Suc (length (takeWhile (inClass k) s))])"
| "rx (Seq a b) s cs = concat (map (\<lambda>(r, cs'). rx b r cs') (rx a s cs))"
| "rx (Opt a) s cs = rx a s cs @ [(s, cs)]"
| "rx (Group n a) s cs =
     map (\<lambda>(r, cs'). (r, cs'(n \<mapsto> take (length s - length r) s))) (rx a s cs)"

text \<open>\<open>s.match(r)\<close> for a regular expression without the \<open>g\<close> flag: the leftmost match.\<close>

fun match :: "string \<Rightarrow> regex \<Rightarrow> captures option" where
  "match [] r = (case rx r [] Map.empty of [] \<Rightarrow> None | (_, cs) # _ \<Rightarrow> Some cs)"
| "match (c # s) r =
     (case rx r (c # s) Map.empty of [] \<Rightarrow> match s r | (_, cs) # _ \<Rightarrow> Some cs)"

text \<open>\<open>m[i]\<close>: a group that took no part in the match reads as undefined.\<close>

definition group :: "captures \<Rightarrow> nat \<Rightarrow> jsval" where
  "group cs i = (case cs i of None \<Rightarrow> Undefined | Some v \<Rightarrow> Str v)"

section \<open>The platform\<close>

text \<open>
  What the program reads from its surroundings: the clock, and the rendering of numbers as
  text (floating-point arithmetic is not modelled, its results are taken from here).
\<close>

record platform =
  Date_toISOString :: string
  Number_toString :: "real \<Rightarrow> string"
  percent_text :: "jsval \<Rightarrow> string"
  fees_text :: "jsval \<Rightarrow> real \<Rightarrow> string"

section \<open>Instruction parser (src/nlp/instruction-parser.ts)\<close>

record ParsedInstruction =
  action :: string
  params :: "(string \<times> jsval) list"
  confidence :: real

definition parseInstruction :: "string \<Rightarrow> ParsedInstruction" where
  "parseInstruction instruction0 =
    (let instruction = trim (toLowerCase instruction0) in
     if includes_str instruction ''swap'' \<or> includes_str instruction ''exchange''
          \<or> includes_str instruction ''trade'' then
       (let sourceTokenMatch = match instruction (Seq (Lit ''from'') (Seq (Plus Space) (Group 1 (Plus Word))));
            targetTokenMatch = match instruction (Seq (Lit ''to'') (Seq (Plus Space) (Group 1 (Plus Word))));
            amountMatch = match instruction
              (Seq (Group 1 (Seq (Plus Digit) (Opt (Group 2 (Seq (Lit ''.'') (Plus Digit))))))
                 (Seq (Plus Space) (Group 3 (Plus Word))))
        in \<lparr>action = ''swap'',
            params =
              [(''sourceToken'', case sourceTokenMatch of Some m \<Rightarrow> group m 1 | None \<Rightarrow> Str ''SOL''),
               (''targetToken'', case targetTokenMatch of Some m \<Rightarrow> group m 1 | None \<Rightarrow> Str ''USDC''),
               (''amount'', case amountMatch of Some m \<Rightarrow> group m 1 | None \<Rightarrow> Str ''1.0''),
               (''slippageBps'', Num 50)],
            confidence = 85 / 100\<rparr>)
     else if includes_str instruction ''add liquidity'' \<or> includes_str instruction ''provide liquidity'' then
       (let poolMatch = match instruction (Seq (Lit ''pool'') (Seq (Plus Space) (Group 1 (Plus Word))))
        in \<lparr>action = ''addLiquidity'',
            params =
              [(''poolId'', case poolMatch of Some m \<Rightarrow> group m 1 | None \<Rightarrow> Str ''default''),
               (''tokenA'', Str ''SOL''),
               (''amountA'', Str ''1.0''),
               (''tokenB'', Str ''USDC''),
               (''amountB'', Str ''10.0'')],
            confidence = 8 / 10\<rparr>)
     else if includes_str instruction ''price'' \<or> includes_str instruction ''value''
          \<or> includes_str instruction ''worth'' then
       (let tokenMatch = match instruction
              (Seq (Lit ''price'') (Seq (Plus Space) (Seq (Lit ''of'') (Seq (Plus Space) (Group 1 (Plus Word))))))
        in \<lparr>action = ''checkPrice'',
            params = [(''token'', case tokenMatch of Some m \<Rightarrow> group m 1 | None \<Rightarrow> Str ''SOL'')],
            confidence = 9 / 10\<rparr>)
     else \<lparr>action = ''unknown'', params = [], confidence = 3 / 10\<rparr>)"

text \<open>
  The promise \<open>parseInstruction\<close> returns: it always resolves. The agents below take the
  parser as an argument (the test suites replace the module), so that a parser whose
  promise rejects is covered as well.
\<close>

definition parseInstruction_promise :: "string \<Rightarrow> thrown + ParsedInstruction" where
  "parseInstruction_promise instruction = Inr (parseInstruction instruction)"

section \<open>Agents (src/agent-template.ts, src/agents)\<close>

record ErrorInfo =
  code :: int
  emessage :: string

record AgentResponse =
  success :: bool
  message :: string
  data :: "jsval option"
  transactionId :: "string option"
  error :: "ErrorInfo option"

text \<open>
  The fields of the abstract class \<open>Agent\<close> that the modelled methods read. \<open>'pk\<close> is
  the library's \<open>PublicKey\<close>; its constructor and \<open>toString\<close> are arguments of the
  functions that call them.
\<close>

record 'pk Agent_fields =
  agentId :: 'pk

record 'pk SolanaDeFiAgent = "'pk Agent_fields" +
  supportedDexes :: "string list"
  defaultSlippageBps :: real

record 'pk NFTMarketAgent = "'pk Agent_fields" +
  supportedMarketplaces :: "string list"
  defaultRoyaltyBps :: real

text \<open>
  String conversion, as a template literal and \<open>parseFloat\<close> apply it. It throws a
  \<open>TypeError\<close> on an object that has an own property \<open>toString\<close>: the property of a
  plain-data object is no function, and \<open>valueOf\<close>, inherited, gives back the object
  (as an own property it is no function either).
  An array is converted by joining its converted elements.
\<close>

definition cannotConvert :: thrown where
  "cannotConvert = Error ''Cannot convert object to primitive value''"

fun join_comma :: "(thrown + string) list \<Rightarrow> thrown + string" where
  "join_comma [] = Inr []"
| "join_comma [p] = p"
| "join_comma (p # q # ps) =
     (case p of
        Inl e \<Rightarrow> Inl e
      | Inr s \<Rightarrow> (case join_comma (q # ps) of Inl e \<Rightarrow> Inl e | Inr t \<Rightarrow> Inr (s @ '','' @ t)))"

fun ToString :: "platform \<Rightarrow> jsval \<Rightarrow> thrown + string" where
  "ToString pf Undefined = Inr ''undefined''"
| "ToString pf (Str s) = Inr s"
| "ToString pf (Num x) = Inr (Number_toString pf x)"
| "ToString pf (Arr xs) =
     join_comma (map (\<lambda>x. if x = Undefined then Inr [] else ToString pf x) xs)"
| "ToString pf (Obj kvs) =
     (if ''toString'' \<in> set (map fst kvs) then Inl cannotConvert else Inr ''[object Object]'')"

text \<open>
  \<open>${v / 100}\<close>: the division converts \<open>v\<close> to a number first, which throws on the
  values whose string conversion throws.
\<close>

definition percentOf :: "platform \<Rightarrow> jsval \<Rightarrow> thrown + string" where
  "percentOf pf v = (case ToString pf v of Inl e \<Rightarrow> Inl e | Inr s \<Rightarrow> Inr (percent_text pf v))"

text \<open>A template literal: its pieces are evaluated from left to right, the first throw ends it.\<close>

fun template :: "(thrown + string) list \<Rightarrow> thrown + string" where
  "template [] = Inr []"
| "template (p # ps) =
     (case p of
        Inl e \<Rightarrow> Inl e
      | Inr s \<Rightarrow> (case template ps of Inl e \<Rightarrow> Inl e | Inr t \<Rightarrow> Inr (s @ t)))"

subsection \<open>SolanaDeFiAgent\<close>

text \<open>
  The handlers are \<open>async\<close>: the result is the promise they return, \<open>Inr\<close> the envelope
  it resolves to, \<open>Inl\<close> the exception it rejects with. In each handler the message is
  the first property whose evaluation can throw.
\<close>

definition handleSwap ::
  "platform \<Rightarrow> jsval \<Rightarrow> jsval \<Rightarrow> jsval \<Rightarrow> jsval \<Rightarrow> thrown + AgentResponse" where
  "handleSwap pf sourceToken targetToken amount slippageBps =
     (case template [Inr ''Simulated swap of '', ToString pf amount, Inr '' '',
             ToString pf sourceToken, Inr '' to '', ToString pf targetToken, Inr '' with '',
             percentOf pf slippageBps, Inr ''% slippage''] of
        Inl e \<Rightarrow> Inl e
      | Inr msg \<Rightarrow>
          Inr \<lparr>success = True,
               message = msg,
               data = Some (Obj [(''sourceToken'', sourceToken), (''targetToken'', targetToken),
                 (''amount'', amount), (''estimatedOutput'', Str ''123.45''),
                 (''route'', Str ''jupiter_v4'')]),
               transactionId = None,
               error = None\<rparr>)"

definition handleAddLiquidity ::
  "platform \<Rightarrow> jsval \<Rightarrow> jsval \<Rightarrow> jsval \<Rightarrow> jsval \<Rightarrow> jsval \<Rightarrow> thrown + AgentResponse" where
  "handleAddLiquidity pf poolId tokenA amountA tokenB amountB =
     (case template [Inr ''Added liquidity to pool '', ToString pf poolId] of
        Inl e \<Rightarrow> Inl e
      | Inr msg \<Rightarrow>
          Inr \<lparr>success = True,
               message = msg,
               data = Some (Obj [(''poolId'', poolId), (''tokenA'', tokenA),
                 (''amountA'', amountA), (''tokenB'', tokenB), (''amountB'', amountB),
                 (''lpTokens'', Str ''10.5'')]),
               transactionId = None,
               error = None\<rparr>)"

definition handlePriceCheck :: "platform \<Rightarrow> jsval \<Rightarrow> thrown + AgentResponse" where
  "handlePriceCheck pf token =
     (case template [Inr ''Current price for '', ToString pf token] of
        Inl e \<Rightarrow> Inl e
      | Inr msg \<Rightarrow>
          Inr \<lparr>success = True,
               message = msg,
               data = Some (Obj [(''token'', token), (''priceUsd'', Str ''1.23''),
                 (''timestamp'', Str (Date_toISOString pf))]),
               transactionId = None,
               error = None\<rparr>)"

text \<open>The two failure envelopes, shared by both agents' \<open>processInstruction\<close>.\<close>

definition unsupportedAction :: "string \<Rightarrow> AgentResponse" where
  "unsupportedAction act =
     \<lparr>success = False,
      message = ''Unsupported action: '' @ act,
      data = None,
      transactionId = None,
      error = Some \<lparr>code = 400,
        emessage = ''The requested action is not supported by this agent''\<rparr>\<rparr>"

definition processingFailed :: "thrown \<Rightarrow> AgentResponse" where
  "processingFailed err =
     \<lparr>success = False,
      message = ''Failed to process instruction'',
      data = None,
      transactionId = None,
      error = Some \<lparr>code = 500,
        emessage = (case err of Error m \<Rightarrow> m | NonError \<Rightarrow> ''Unknown error'')\<rparr>\<rparr>"

text \<open>
  \<open>processInstruction\<close>: the result is the promise it returns. The parser's promise is
  awaited inside \<open>try\<close>, so its rejection reaches the \<open>catch\<close> block. A handler's
  promise is returned without \<open>await\<close>: it becomes the result as it is, and its
  rejection does not reach the \<open>catch\<close> block.
\<close>

definition SolanaDeFiAgent_processInstruction ::
  "platform \<Rightarrow> (string \<Rightarrow> thrown + ParsedInstruction) \<Rightarrow> 'pk SolanaDeFiAgent \<Rightarrow> string
     \<Rightarrow> thrown + AgentResponse" where
  "SolanaDeFiAgent_processInstruction pf parse this instruction =
     (case parse instruction of
        Inl err \<Rightarrow> Inr (processingFailed err)
      | Inr parsedInstruction \<Rightarrow>
          (let ps = params parsedInstruction in
           if action parsedInstruction = ''swap'' then
             handleSwap pf (getProp ps ''sourceToken'') (getProp ps ''targetToken'')
               (getProp ps ''amount'')
               (js_or (getProp ps ''slippageBps'') (Num (defaultSlippageBps this)))
           else if action parsedInstruction = ''addLiquidity'' then
             handleAddLiquidity pf (getProp ps ''poolId'') (getProp ps ''tokenA'')
               (getProp ps ''amountA'') (getProp ps ''tokenB'') (getProp ps ''amountB'')
           else if action parsedInstruction = ''checkPrice'' then
             handlePriceCheck pf (getProp ps ''token'')
           else Inr (unsupportedAction (action parsedInstruction))))"

subsection \<open>NFTMarketAgent\<close>

text \<open>\<open>this.supportedMarketplaces[0]\<close>: undefined on an empty array.\<close>

definition firstMarketplace :: "'pk NFTMarketAgent \<Rightarrow> jsval" where
  "firstMarketplace this =
     (case supportedMarketplaces this of [] \<Rightarrow> Undefined | m # _ \<Rightarrow> Str m)"

definition handleListNFT ::
  "platform \<Rightarrow> 'pk NFTMarketAgent \<Rightarrow> jsval \<Rightarrow> jsval \<Rightarrow> jsval \<Rightarrow> thrown + AgentResponse" where
  "handleListNFT pf this nftMint price marketplace =
     (case template [Inr ''Listed NFT '', ToString pf nftMint, Inr '' for '', ToString pf price,
             Inr '' SOL on '', ToString pf marketplace] of
        Inl e \<Rightarrow> Inl e
      | Inr msg \<Rightarrow>
          Inr \<lparr>success = True,
               message = msg,
               data = Some (Obj [(''nftMint'', nftMint), (''price'', price),
                 (''marketplace'', marketplace), (''listingTime'', Str (Date_toISOString pf)),
                 (''fees'', Str (fees_text pf price (defaultRoyaltyBps this)))]),
               transactionId = None,
               error = None\<rparr>)"

definition handleBuyNFT ::
  "platform \<Rightarrow> 'pk NFTMarketAgent \<Rightarrow> jsval \<Rightarrow> jsval \<Rightarrow> thrown + AgentResponse" where
  "handleBuyNFT pf this nftMint maxPrice =
     (case template [Inr ''Purchased NFT '', ToString pf nftMint, Inr '' for '',
             ToString pf maxPrice, Inr '' SOL''] of
        Inl e \<Rightarrow> Inl e
      | Inr msg \<Rightarrow>
          Inr \<lparr>success = True,
               message = msg,
               data = Some (Obj [(''nftMint'', nftMint), (''pricePaid'', maxPrice),
                 (''marketplace'', firstMarketplace this),
                 (''purchaseTime'', Str (Date_toISOString pf))]),
               transactionId = None,
               error = None\<rparr>)"

definition handleCollectionCheck :: "platform \<Rightarrow> jsval \<Rightarrow> thrown + AgentResponse" where
  "handleCollectionCheck pf collectionAddress =
     (case template [Inr ''Information about collection '', ToString pf collectionAddress] of
        Inl e \<Rightarrow> Inl e
      | Inr msg \<Rightarrow>
          Inr \<lparr>success = True,
               message = msg,
               data = Some (Obj [(''collectionAddress'', collectionAddress),
                 (''floorPrice'', Str ''10.5''), (''totalVolume'', Str ''1250.75''),
                 (''items'', Num 10000), (''owners'', Num 3500),
                 (''lastUpdated'', Str (Date_toISOString pf))]),
               transactionId = None,
               error = None\<rparr>)"

definition handleMintNFT ::
  "platform \<Rightarrow> ('pk \<Rightarrow> string) \<Rightarrow> 'pk NFTMarketAgent \<Rightarrow> jsval \<Rightarrow> jsval \<Rightarrow> jsval
     \<Rightarrow> thrown + AgentResponse" where
  "handleMintNFT pf PublicKey_toString this metadataUri nm symbol =
     (case template [Inr ''Minted new NFT: '', ToString pf nm, Inr '' ('', ToString pf symbol,
             Inr '')''] of
        Inl e \<Rightarrow> Inl e
      | Inr msg \<Rightarrow>
          Inr \<lparr>success = True,
               message = msg,
               data = Some (Obj [(''name'', nm), (''symbol'', symbol),
                 (''metadataUri'', metadataUri), (''mintAddress'', Str ''Abc123...''),
                 (''mintTime'', Str (Date_toISOString pf)),
                 (''owner'', Str (PublicKey_toString (agentId this)))]),
               transactionId = None,
               error = None\<rparr>)"

definition NFTMarketAgent_processInstruction ::
  "platform \<Rightarrow> ('pk \<Rightarrow> string) \<Rightarrow> (string \<Rightarrow> thrown + ParsedInstruction)
     \<Rightarrow> 'pk NFTMarketAgent \<Rightarrow> string \<Rightarrow> thrown + AgentResponse" where
  "NFTMarketAgent_processInstruction pf PublicKey_toString parse this instruction =
     (case parse instruction of
        Inl err \<Rightarrow> Inr (processingFailed err)
      | Inr parsedInstruction \<Rightarrow>
          (let ps = params parsedInstruction in
           if action parsedInstruction = ''listNFT'' then
             handleListNFT pf this (getProp ps ''nftMint'') (getProp ps ''price'')
               (js_or (getProp ps ''marketplace'') (firstMarketplace this))
           else if action parsedInstruction = ''buyNFT'' then
             handleBuyNFT pf this (getProp ps ''nftMint'') (getProp ps ''maxPrice'')
           else if action parsedInstruction = ''checkCollection'' then
             handleCollectionCheck pf (getProp ps ''collectionAddress'')
           else if action parsedInstruction = ''mintNFT'' then
             handleMintNFT pf PublicKey_toString this (getProp ps ''metadataUri'')
               (getProp ps ''name'') (getProp ps ''symbol'')
           else Inr (unsupportedAction (action parsedInstruction))))"

subsection \<open>The polymorphic agent\<close>

datatype 'pk agent = DeFi "'pk SolanaDeFiAgent" | NFT "'pk NFTMarketAgent"

fun processInstruction ::
  "platform \<Rightarrow> ('pk \<Rightarrow> string) \<Rightarrow> (string \<Rightarrow> thrown + ParsedInstruction) \<Rightarrow> 'pk agent
     \<Rightarrow> string \<Rightarrow> thrown + AgentResponse" where
  "processInstruction pf PublicKey_toString parse (DeFi a) instruction =
     SolanaDeFiAgent_processInstruction pf parse a instruction"
| "processInstruction pf PublicKey_toString parse (NFT a) instruction =
     NFTMarketAgent_processInstruction pf PublicKey_toString parse a instruction"

text \<open>The \<open>case\<close> labels of each agent's \<open>switch\<close>.\<close>

fun recognizedActions :: "'pk agent \<Rightarrow> string list" where
  "recognizedActions (DeFi a) = [''swap'', ''addLiquidity'', ''checkPrice'']"
| "recognizedActions (NFT a) = [''listNFT'', ''buyNFT'', ''checkCollection'', ''mintNFT'']"

fun getName_of :: "'pk agent \<Rightarrow> string" where
  "getName_of (DeFi a) = ''Solana DeFi Agent''"
| "getName_of (NFT a) = ''Solana NFT Market Agent''"

fun getState_of :: "('pk \<Rightarrow> string) \<Rightarrow> 'pk agent \<Rightarrow> (string \<times> jsval) list" where
  "getState_of PublicKey_toString (DeFi a) =
     [(''agentId'', Str (PublicKey_toString (agentId a))),
      (''supportedDexes'', Arr (map Str (supportedDexes a))),
      (''defaultSlippageBps'', Num (defaultSlippageBps a))]"
| "getState_of PublicKey_toString (NFT a) =
     [(''agentId'', Str (PublicKey_toString (agentId a))),
      (''supportedMarketplaces'', Arr (map Str (supportedMarketplaces a))),
      (''defaultRoyaltyBps'', Num (defaultRoyaltyBps a))]"

text \<open>
  The context router is written against the abstract class: of an agent it calls
  \<open>getName()\<close>, which returns a string, and \<open>getState()\<close>, whose promise resolves
  to a record or rejects. An \<open>Agent\<close> holds what the two calls give.
\<close>

record Agent =
  getName :: string
  getState :: "thrown + (string \<times> jsval) list"

definition asAgent :: "('pk \<Rightarrow> string) \<Rightarrow> 'pk agent \<Rightarrow> Agent" where
  "asAgent PublicKey_toString a =
     \<lparr>getName = getName_of a, getState = Inr (getState_of PublicKey_toString a)\<rparr>"

section \<open>Context router (src/context-router.ts)\<close>

datatype ContextType =
  DEX | NFT_MARKETPLACE | ORACLE | GOVERNANCE | SOCIAL | IDENTITY | STORAGE

record ContextDefinition =
  ctx_id :: string
  name :: string
  description :: string
  ctx_type :: ContextType
  capabilities :: "string list"
  endpoint :: "string option"
  pubkey :: "string option"
  authRequired :: bool
  schema :: "(string \<times> jsval) list option"

subsection \<open>The registry: a JavaScript \<open>Map\<close>\<close>

text \<open>
  A \<open>Map\<close> iterates in insertion order, and \<open>set\<close> on a key already present replaces
  the value where it stands: an association list with \<open>AList.update\<close>.
\<close>

type_synonym registry = "(string \<times> ContextDefinition) list"

definition Map_has :: "registry \<Rightarrow> string \<Rightarrow> bool" where
  "Map_has m k = (map_of m k \<noteq> None)"

definition Map_get :: "registry \<Rightarrow> string \<Rightarrow> ContextDefinition option" where
  "Map_get m k = map_of m k"

definition Map_set :: "registry \<Rightarrow> string \<Rightarrow> ContextDefinition \<Rightarrow> registry" where
  "Map_set m k v = AList.update k v m"

definition Map_values :: "registry \<Rightarrow> ContextDefinition list" where
  "Map_values m = map snd m"

definition Map_size :: "registry \<Rightarrow> nat" where
  "Map_size m = length m"

text \<open>
  What the router writes to the console. The \<open>connection\<close> its constructor stores is
  read by no method and is left out of the record.
\<close>

datatype console_line =
    Warn_overwriting string
  | Log_loaded nat
  | Error_load_failed thrown

record ContextRouter =
  contexts :: registry
  console :: "console_line list"

definition ContextRouter_new :: ContextRouter where
  "ContextRouter_new = \<lparr>contexts = [], console = []\<rparr>"

definition registerContext :: "ContextDefinition \<Rightarrow> ContextRouter \<Rightarrow> ContextRouter" where
  "registerContext context this =
     (let warned =
        (if Map_has (contexts this) (ctx_id context)
         then this\<lparr>console := console this @ [Warn_overwriting (ctx_id context)]\<rparr>
         else this)
      in warned\<lparr>contexts := Map_set (contexts warned) (ctx_id context) context\<rparr>)"

subsection \<open>Queries\<close>

text \<open>The loop of \<open>findContextsByCapabilities\<close> over \<open>this.contexts.values()\<close>.\<close>

fun collectMatches ::
  "string list \<Rightarrow> ContextDefinition list \<Rightarrow> ContextDefinition list \<Rightarrow> ContextDefinition list" where
  "collectMatches caps [] matches = matches"
| "collectMatches caps (context # rest) matches =
     (let hasAllCapabilities =
        list_all (\<lambda>cap. list_ex (\<lambda>contextCap. toLowerCase contextCap = toLowerCase cap)
          (capabilities context)) caps
      in collectMatches caps rest
           (if hasAllCapabilities then matches @ [context] else matches))"

definition findContextsByCapabilities :: "ContextRouter \<Rightarrow> string list \<Rightarrow> ContextDefinition list" where
  "findContextsByCapabilities this caps = collectMatches caps (Map_values (contexts this)) []"

definition findContextsByType :: "ContextRouter \<Rightarrow> ContextType \<Rightarrow> ContextDefinition list" where
  "findContextsByType this t = filter (\<lambda>context. ctx_type context = t) (Map_values (contexts this))"

subsection \<open>Permission check and routing\<close>

text \<open>
  \<open>checkPermission\<close> and \<open>routeRequest\<close> either return or throw. The two errors
  \<open>routeRequest\<close> creates itself are kept apart from an exception that comes out of the
  agent's \<open>getState\<close> or out of the \<open>PublicKey\<close> constructor and passes through.
\<close>

datatype route_error =
    PermissionDenied string string
  | ContextNotFound string
  | Rethrown thrown

fun thrown_of :: "route_error \<Rightarrow> thrown" where
  "thrown_of (PermissionDenied agentName contextId) =
     Error (''Agent '' @ agentName @ '' does not have permission to access context '' @ contextId)"
| "thrown_of (ContextNotFound contextId) = Error (''Context '' @ contextId @ '' not found'')"
| "thrown_of (Rethrown e) = e"

definition checkPermission ::
  "(jsval \<Rightarrow> thrown + 'pk) \<Rightarrow> ContextRouter \<Rightarrow> Agent \<Rightarrow> string \<Rightarrow> thrown + bool" where
  "checkPermission PublicKey_new this agent contextId =
     (case Map_get (contexts this) contextId of
        None \<Rightarrow> Inr False
      | Some context \<Rightarrow>
          (case getState agent of
             Inl e \<Rightarrow> Inl e
           | Inr agentState \<Rightarrow>
               (case PublicKey_new (getProp agentState ''agentId'') of
                  Inl e \<Rightarrow> Inl e
                | Inr _ \<Rightarrow> Inr True)))"

definition routeRequest ::
  "(jsval \<Rightarrow> thrown + 'pk) \<Rightarrow> platform \<Rightarrow> ContextRouter \<Rightarrow> Agent \<Rightarrow> string
     \<Rightarrow> (string \<times> jsval) list \<Rightarrow> route_error + (string \<times> jsval) list" where
  "routeRequest PublicKey_new pf this agent contextId request =
     (case checkPermission PublicKey_new this agent contextId of
        Inl e \<Rightarrow> Inl (Rethrown e)
      | Inr hasPermission \<Rightarrow>
          if \<not> hasPermission then Inl (PermissionDenied (getName agent) contextId)
          else
            (case Map_get (contexts this) contextId of
               None \<Rightarrow> Inl (ContextNotFound contextId)
             | Some context \<Rightarrow>
                 Inr [(''contextId'', Str contextId),
                      (''timestamp'', Str (Date_toISOString pf)),
                      (''status'', Str ''success''),
                      (''data'', Obj [(''message'', Str (''Processed request to '' @ name context)),
                                      (''requestSummary'', Obj request)])]))"

subsection \<open>Loading definitions from a directory\<close>

text \<open>
  The file system and the two parsers, as the calls of \<open>loadContexts\<close> see them: each
  returns or throws. A parser returns a definition, as the source types its result; a
  file whose content parses to \<open>null\<close>, so that reading its \<open>id\<close> throws inside the
  same \<open>try\<close> block, counts as a file that does not parse.
\<close>

record node =
  readdirSync :: "string \<Rightarrow> thrown + string list"
  readFileSync :: "string \<Rightarrow> thrown + string"
  path_join :: "string \<Rightarrow> string \<Rightarrow> string"
  JSON_parse :: "string \<Rightarrow> thrown + ContextDefinition"
  yaml_parse :: "string \<Rightarrow> thrown + ContextDefinition"

definition isContextFile :: "string \<Rightarrow> bool" where
  "isContextFile file =
     (endsWith file ''.yaml'' \<or> endsWith file ''.yml'' \<or> endsWith file ''.json'')"

text \<open>Reading and parsing one file (the body of the \<open>if\<close> up to the registration).\<close>

definition readDefinition :: "node \<Rightarrow> string \<Rightarrow> string \<Rightarrow> thrown + ContextDefinition" where
  "readDefinition nd contextDir file =
     (case readFileSync nd (path_join nd contextDir file) of
        Inl e \<Rightarrow> Inl e
      | Inr content \<Rightarrow>
          if endsWith file ''.json'' then JSON_parse nd content else yaml_parse nd content)"

text \<open>The \<open>for\<close> loop: it stops at the first exception, keeping what it has registered.\<close>

fun loadFiles ::
  "node \<Rightarrow> string \<Rightarrow> string list \<Rightarrow> ContextRouter \<Rightarrow> thrown option \<times> ContextRouter" where
  "loadFiles nd contextDir [] this = (None, this)"
| "loadFiles nd contextDir (file # files) this =
     (if isContextFile file then
        (case readDefinition nd contextDir file of
           Inl e \<Rightarrow> (Some e, this)
         | Inr contextDef \<Rightarrow> loadFiles nd contextDir files (registerContext contextDef this))
      else loadFiles nd contextDir files this)"

text \<open>
  \<open>loadContexts\<close>: the result is \<open>Inl e\<close> when the exception \<open>e\<close> is thrown on to the
  caller, with the router as the call leaves it.
\<close>

definition loadContexts ::
  "node \<Rightarrow> string \<Rightarrow> ContextRouter \<Rightarrow> (thrown + unit) \<times> ContextRouter" where
  "loadContexts nd contextDir this =
     (case readdirSync nd contextDir of
        Inl e \<Rightarrow> (Inl e, this\<lparr>console := console this @ [Error_load_failed e]\<rparr>)
      | Inr files \<Rightarrow>
          (case loadFiles nd contextDir files this of
             (Some e, this') \<Rightarrow>
               (Inl e, this'\<lparr>console := console this' @ [Error_load_failed e]\<rparr>)
           | (None, this') \<Rightarrow>
               (Inr (), this'\<lparr>console := console this' @ [Log_loaded (Map_size (contexts this'))]\<rparr>)))"

text \<open>The routers a program can hold: a new one, changed by the two mutating methods.\<close>

inductive reachable :: "ContextRouter \<Rightarrow> bool" where
  reachable_new: "reachable ContextRouter_new"
| reachable_register: "reachable this \<Longrightarrow> reachable (registerContext context this)"
| reachable_load: "reachable this \<Longrightarrow> reachable (snd (loadContexts nd contextDir this))"

section \<open>Notions used in the statements\<close>

text \<open>
  A registry is well kept when no key occurs twice and every definition is stored under
  its own id.
\<close>

definition registry_ok :: "registry \<Rightarrow> bool" where
  "registry_ok m = (distinct (map fst m) \<and> (\<forall>(k, d) \<in> set m. k = ctx_id d))"

text \<open>
  The definitions \<open>loadContexts\<close> obtains from a list of file names: those of the
  recognized files that can be read and parsed, in the order of the list.
\<close>

fun definitionsOf :: "node \<Rightarrow> string \<Rightarrow> string list \<Rightarrow> ContextDefinition list" where
  "definitionsOf nd contextDir [] = []"
| "definitionsOf nd contextDir (file # files) =
     (if isContextFile file then
        (case readDefinition nd contextDir file of
           Inl e \<Rightarrow> definitionsOf nd contextDir files
         | Inr d \<Rightarrow> d # definitionsOf nd contextDir files)
      else definitionsOf nd contextDir files)"

subsection \<open>Example values\<close>

text \<open>The definition in \<open>contexts/jupiter-dex.yaml\<close>.\<close>

definition jupiter_dex :: ContextDefinition where
  "jupiter_dex =
     \<lparr>ctx_id = ''jupiter-dex-v4'',
      name = ''Jupiter Aggregator'',
      description = ''A liquidity aggregator for Solana that sources liquidity from various DEXes to provide the best swap rates'',
      ctx_type = DEX,
      capabilities = [''token_swaps'', ''route_optimization'', ''price_discovery'',
        ''slippage_protection''],
      endpoint = Some ''https://quote-api.jup.ag/v4'',
      pubkey = Some ''JUP4Fb2cqiRUcaTHdrPC8h2gNsA2ETXiPDD33WcGuJB'',
      authRequired = False,
      schema = Some
        [(''swapQuote'', Obj [(''inputMint'', Str ''string''), (''outputMint'', Str ''string''),
           (''amount'', Str ''string''), (''slippageBps'', Str ''number'')]),
         (''swap'', Obj [(''quoteResponse'', Str ''object''),
           (''userPublicKey'', Str ''string'')])]\<rparr>"

text \<open>The same service declared with capitals in its capabilities, and a later release.\<close>

definition jupiter_capitals :: ContextDefinition where
  "jupiter_capitals = jupiter_dex\<lparr>capabilities := [''Token_Swaps'', ''Route_Optimization'']\<rparr>"

definition jupiter_v6 :: ContextDefinition where
  "jupiter_v6 = jupiter_dex\<lparr>name := ''Jupiter Aggregator v6'',
     endpoint := Some ''https://quote-api.jup.ag/v6''\<rparr>"

text \<open>
  A public key is written here by its base-58 text. The stand-in for the constructor
  accepts a non-empty string and throws on anything else.
\<close>

definition sample_PublicKey_new :: "jsval \<Rightarrow> thrown + string" where
  "sample_PublicKey_new v =
     (case v of
        Str s \<Rightarrow> if s = [] then Inl (Error ''Invalid public key input'') else Inr s
      | _ \<Rightarrow> Inl (Error ''Invalid public key input''))"

definition sample_platform :: platform where
  "sample_platform =
     \<lparr>Date_toISOString = ''2025-01-01T00:00:00.000Z'',
      Number_toString = (\<lambda>x. ''50''),
      percent_text = (\<lambda>v. ''0.5''),
      fees_text = (\<lambda>v r. ''0.5000'')\<rparr>"

definition sample_defi :: "string agent" where
  "sample_defi = DeFi \<lparr>agentId = ''7xKXtg2CW87d97TXJSDpbD5jBkheTqA83TZRuJosgAsU'',
     supportedDexes = [''Jupiter'', ''Raydium''], defaultSlippageBps = 50\<rparr>"

definition sample_nft :: "string agent" where
  "sample_nft = NFT \<lparr>agentId = ''7xKXtg2CW87d97TXJSDpbD5jBkheTqA83TZRuJosgAsU'',
     supportedMarketplaces = [''Magic Eden'', ''Tensor''], defaultRoyaltyBps = 500\<rparr>"

text \<open>An agent whose \<open>getState\<close> promise rejects.\<close>

definition sample_offline :: Agent where
  "sample_offline = \<lparr>getName = ''Offline Agent'', getState = Inl (Error ''state unavailable'')\<rparr>"

text \<open>An agent whose state has the empty string as \<open>agentId\<close>.\<close>

definition sample_blank_id :: Agent where
  "sample_blank_id = \<lparr>getName = ''Blank Agent'', getState = Inr [(''agentId'', Str [])]\<rparr>"


text \<open>
  A directory holding \<open>a-jupiter.yaml\<close>, \<open>notes.txt\<close>, \<open>broken.json\<close> and
  \<open>z-jupiter.yml\<close>: the YAML files parse to the definition above, the JSON file does
  not parse. Any other directory cannot be listed.
\<close>

definition sample_node :: node where
  "sample_node =
     \<lparr>readdirSync = (\<lambda>d. if d = ''contexts''
        then Inr [''a-jupiter.yaml'', ''notes.txt'', ''broken.json'', ''z-jupiter.yml'']
        else Inl (Error ''ENOENT: no such file or directory'')),
      readFileSync = (\<lambda>p. Inr p),
      path_join = (\<lambda>d f. d @ ''/'' @ f),
      JSON_parse = (\<lambda>c. Inl (Error ''Unexpected token } in JSON'')),
      yaml_parse = (\<lambda>c. Inr jupiter_dex)\<rparr>"

section \<open>Strings: lower-casing and trimming\<close>

lemma isSpace_lowerChar: "isSpace (lowerChar c) = isSpace c"
  by (auto simp: isSpace_def lowerChar_def isUpper_def Let_def)

lemma isUpper_lowerChar: "\<not> isUpper (lowerChar c)"
  by (auto simp: lowerChar_def isUpper_def Let_def)

lemma lowerChar_idem: "lowerChar (lowerChar c) = lowerChar c"
  using isUpper_lowerChar[of c] by (simp add: lowerChar_def[of "lowerChar c"])

lemma toLowerCase_idem: "toLowerCase (toLowerCase s) = toLowerCase s"
  by (simp add: toLowerCase_def lowerChar_idem)

lemma dropWhile_toLowerCase:
  "dropWhile isSpace (toLowerCase s) = toLowerCase (dropWhile isSpace s)"
  by (induction s) (simp_all add: toLowerCase_def isSpace_lowerChar)

lemma toLowerCase_rev: "toLowerCase (rev s) = rev (toLowerCase s)"
  by (simp add: toLowerCase_def rev_map)

lemma toLowerCase_trim: "toLowerCase (trim s) = trim (toLowerCase s)"
  by (simp add: trim_def dropWhile_toLowerCase toLowerCase_rev[symmetric])

lemma dropWhile_snoc_keep: "\<not> P x \<Longrightarrow> \<exists>zs. dropWhile P (as @ [x]) = zs @ [x]"
  by (simp add: dropWhile_append)

lemma dropWhile_rev_dropWhile:
  "dropWhile P (rev (dropWhile P (rev (dropWhile P s)))) = rev (dropWhile P (rev (dropWhile P s)))"
proof (cases "dropWhile P s")
  case Nil
  show ?thesis unfolding Nil by simp
next
  case (Cons x xs)
  then have nx: "\<not> P x"
    using hd_dropWhile[of P s] by (metis list.sel(1) list.distinct(1))
  obtain zs where "dropWhile P (rev xs @ [x]) = zs @ [x]"
    using dropWhile_snoc_keep[of P x "rev xs"] nx by blast
  then show ?thesis unfolding Cons using nx by simp
qed

lemma trim_idem: "trim (trim s) = trim s"
  by (simp add: trim_def dropWhile_rev_dropWhile)

lemma normalise_idem: "trim (toLowerCase (trim (toLowerCase s))) = trim (toLowerCase s)"
  by (simp add: toLowerCase_trim toLowerCase_idem trim_idem)

section \<open>The instruction parser\<close>

text \<open>
  C10. \<open>parseInstruction\<close> gives the same result on an instruction and on its
  lower-cased, trimmed form: letter case and surrounding white space do not matter.
\<close>

theorem parseInstruction_case_and_space_invariant:
  "parseInstruction instruction = parseInstruction (trim (toLowerCase instruction))"
  by (simp add: parseInstruction_def normalise_idem)

section \<open>Agents\<close>

lemma handlers_succeed:
  "handleSwap pf a b c d = Inr r \<Longrightarrow> success r \<and> error r = None"
  "handleAddLiquidity pf a b c d e = Inr r \<Longrightarrow> success r \<and> error r = None"
  "handlePriceCheck pf a = Inr r \<Longrightarrow> success r \<and> error r = None"
  "handleListNFT pf n a b c = Inr r \<Longrightarrow> success r \<and> error r = None"
  "handleBuyNFT pf n a b = Inr r \<Longrightarrow> success r \<and> error r = None"
  "handleCollectionCheck pf a = Inr r \<Longrightarrow> success r \<and> error r = None"
  "handleMintNFT pf ts n a b c = Inr r \<Longrightarrow> success r \<and> error r = None"
  by (auto simp: handleSwap_def handleAddLiquidity_def handlePriceCheck_def
      handleListNFT_def handleBuyNFT_def handleCollectionCheck_def handleMintNFT_def
      split: sum.splits)

text \<open>
  What \<open>processInstruction\<close> can give. A parser exception gives the 500 envelope, an
  action outside the \<open>case\<close> labels gives the 400 envelope, and an action among them
  gives the handler's promise: a success envelope, or the handler's rejection.
\<close>

lemma processInstruction_outcomes:
  "(\<forall>e. parse instruction = Inl e \<longrightarrow>
       processInstruction pf ts parse ag instruction = Inr (processingFailed e))
   \<and> (\<forall>p. parse instruction = Inr p \<and> action p \<notin> set (recognizedActions ag) \<longrightarrow>
       processInstruction pf ts parse ag instruction = Inr (unsupportedAction (action p)))
   \<and> (\<forall>p r. parse instruction = Inr p \<and> action p \<in> set (recognizedActions ag)
         \<and> processInstruction pf ts parse ag instruction = Inr r \<longrightarrow>
       success r \<and> error r = None)
   \<and> (\<forall>r. processInstruction pf ts parse ag instruction = Inr r \<and> \<not> success r \<longrightarrow>
       error r \<noteq> None)"
proof (cases ag)
  case (DeFi a)
  show ?thesis unfolding DeFi
    by (cases "parse instruction")
      (auto simp: SolanaDeFiAgent_processInstruction_def unsupportedAction_def
        processingFailed_def Let_def dest: handlers_succeed split: if_splits)
next
  case (NFT a)
  show ?thesis unfolding NFT
    by (cases "parse instruction")
      (auto simp: NFTMarketAgent_processInstruction_def unsupportedAction_def
        processingFailed_def Let_def dest: handlers_succeed split: if_splits)
qed

text \<open>
  The parameters the module's own parser produces are strings and one number, on which no
  conversion throws: with it, \<open>processInstruction\<close> always resolves to an envelope.
\<close>

lemma ToString_group: "\<exists>s. ToString pf (group m i) = Inr s"
  by (simp add: group_def split: option.splits)

lemma handlePriceCheck_group: "\<exists>r. handlePriceCheck pf (group m i) = Inr r"
  using ToString_group[of pf m i] by (auto simp: handlePriceCheck_def)

lemma handleAddLiquidity_group: "\<exists>r. handleAddLiquidity pf (group m i) a b c d = Inr r"
  using ToString_group[of pf m i] by (auto simp: handleAddLiquidity_def)

lemma handleSwap_strings:
  assumes "\<exists>s. ToString pf a = Inr s" "\<exists>s. ToString pf b = Inr s" "\<exists>s. ToString pf c = Inr s"
  shows "\<exists>r. handleSwap pf a b c (Num 50) = Inr r"
  using assms by (auto simp: handleSwap_def percentOf_def)

lemma processInstruction_own_parser:
  "\<exists>r. processInstruction pf ts parseInstruction_promise ag instruction = Inr r"
proof (cases ag)
  case (NFT a)
  show ?thesis unfolding NFT
    by (simp add: NFTMarketAgent_processInstruction_def parseInstruction_promise_def
        parseInstruction_def Let_def)
next
  case (DeFi a)
  have swap: "\<exists>r. handleSwap pf
      (case x of None \<Rightarrow> Str ''SOL'' | Some m \<Rightarrow> group m 1)
      (case y of None \<Rightarrow> Str ''USDC'' | Some m \<Rightarrow> group m 1)
      (case z of None \<Rightarrow> Str ''1.0'' | Some m \<Rightarrow> group m 1) (Num 50) = Inr r" for x y z
    by (rule handleSwap_strings) (auto simp: ToString_group split: option.splits)
  have liq: "\<exists>r. handleAddLiquidity pf
      (case x of None \<Rightarrow> Str ''default'' | Some m \<Rightarrow> group m 1) a b c d = Inr r" for x a b c d
    by (cases x) (simp_all add: handleAddLiquidity_group, simp add: handleAddLiquidity_def)
  have price: "\<exists>r. handlePriceCheck pf
      (case x of None \<Rightarrow> Str ''SOL'' | Some m \<Rightarrow> group m 1) = Inr r" for x
    by (cases x) (simp_all add: handlePriceCheck_group, simp add: handlePriceCheck_def)
  show ?thesis unfolding DeFi
    by (simp add: SolanaDeFiAgent_processInstruction_def parseInstruction_promise_def
        parseInstruction_def Let_def getProp_def js_or_def swap liq price)
qed


section \<open>The registry\<close>

lemma contexts_registerContext:
  "contexts (registerContext d r) = AList.update (ctx_id d) d (contexts r)"
  by (simp add: registerContext_def Map_set_def Let_def)

lemma set_update_subset: "set (AList.update k v al) \<subseteq> insert (k, v) (set al)"
  by (induction al) auto

lemma registry_ok_update: "registry_ok m \<Longrightarrow> registry_ok (AList.update (ctx_id d) d m)"
  unfolding registry_ok_def using set_update_subset[of "ctx_id d" d m]
  by (auto simp: distinct_update)

lemma registry_ok_registerContext:
  "registry_ok (contexts r) \<Longrightarrow> registry_ok (contexts (registerContext d r))"
  by (simp add: contexts_registerContext registry_ok_update)

lemma registry_ok_loadFiles:
  "registry_ok (contexts r) \<Longrightarrow> registry_ok (contexts (snd (loadFiles nd dir files r)))"
  by (induction files arbitrary: r) (auto simp: registry_ok_registerContext split: sum.splits)

lemma contexts_loadContexts:
  "contexts (snd (loadContexts nd dir r)) =
     (case readdirSync nd dir of
        Inl e \<Rightarrow> contexts r
      | Inr files \<Rightarrow> contexts (snd (loadFiles nd dir files r)))"
  by (auto simp: loadContexts_def split: sum.splits prod.splits option.splits)

lemma registry_ok_loadContexts:
  "registry_ok (contexts r) \<Longrightarrow> registry_ok (contexts (snd (loadContexts nd dir r)))"
  by (simp add: contexts_loadContexts registry_ok_loadFiles split: sum.splits)

lemma reachable_registry_ok: "reachable r \<Longrightarrow> registry_ok (contexts r)"
proof (induction rule: reachable.induct)
  case reachable_new
  show ?case by (simp add: ContextRouter_new_def registry_ok_def)
next
  case (reachable_register r d)
  then show ?case by (simp add: registry_ok_registerContext)
next
  case (reachable_load r nd dir)
  then show ?case by (simp add: registry_ok_loadContexts)
qed

lemma registry_ok_ids: "registry_ok m \<Longrightarrow> map ctx_id (map snd m) = map fst m"
  by (induction m) (auto simp: registry_ok_def)

lemma filter_other_ids:
  "registry_ok m \<Longrightarrow> k \<notin> fst ` set m \<Longrightarrow> filter (\<lambda>c. ctx_id c = k) (map snd m) = []"
  by (induction m) (auto simp: registry_ok_def)

lemma filter_id_update:
  "registry_ok m \<Longrightarrow>
     filter (\<lambda>c. ctx_id c = ctx_id d) (map snd (AList.update (ctx_id d) d m)) = [d]"
proof (induction m)
  case Nil
  show ?case by simp
next
  case (Cons p ps)
  from Cons.prems have ok: "registry_ok ps" and p: "fst p = ctx_id (snd p)"
    and fresh: "fst p \<notin> fst ` set ps"
    by (auto simp: registry_ok_def)
  show ?case
  proof (cases "fst p = ctx_id d")
    case True
    with fresh have "ctx_id d \<notin> fst ` set ps" by simp
    with ok have "filter (\<lambda>c. ctx_id c = ctx_id d) (map snd ps) = []"
      by (rule filter_other_ids)
    with True show ?thesis by simp
  next
    case False
    with p Cons.IH[OF ok] show ?thesis by simp
  qed
qed

lemma Map_has_iff: "Map_has m k \<longleftrightarrow> k \<in> fst ` set m"
  by (simp add: Map_has_def map_of_eq_None_iff)

lemma Map_has_registerContext:
  "Map_has (contexts (registerContext d r)) k \<longleftrightarrow> k = ctx_id d \<or> Map_has (contexts r) k"
  by (simp add: Map_has_iff contexts_registerContext dom_update)

lemma Map_has_fold_registerContext:
  "Map_has (contexts (fold registerContext ds r)) k \<longleftrightarrow>
     k \<in> ctx_id ` set ds \<or> Map_has (contexts r) k"
  by (induction ds arbitrary: r) (auto simp: Map_has_registerContext)

text \<open>
  C3. In every router a program can reach, no two registered definitions have the same
  id. \<open>registerContext\<close> stores the definition under its id; after registering two
  definitions with one id, the registry holds exactly one definition with that id, the
  second, and \<open>findContextsByType\<close> shows exactly that one.
\<close>

theorem registerContext_last_write_wins:
  assumes "reachable r"
  shows "distinct (map ctx_id (Map_values (contexts r)))
    \<and> Map_get (contexts (registerContext d r)) (ctx_id d) = Some d
    \<and> (ctx_id d1 = ctx_id d2 \<longrightarrow>
         filter (\<lambda>c. ctx_id c = ctx_id d2)
           (Map_values (contexts (registerContext d2 (registerContext d1 r)))) = [d2]
       \<and> filter (\<lambda>c. ctx_id c = ctx_id d2)
           (findContextsByType (registerContext d2 (registerContext d1 r)) (ctx_type d2)) = [d2])"
proof -
  from assms have ok: "registry_ok (contexts r)" by (rule reachable_registry_ok)
  have "map ctx_id (Map_values (contexts r)) = map fst (contexts r)"
    using registry_ok_ids[OF ok] by (simp only: Map_values_def)
  moreover have "distinct (map fst (contexts r))"
    using ok by (simp add: registry_ok_def)
  ultimately have one: "distinct (map ctx_id (Map_values (contexts r)))"
    by simp
  have ins: "Map_get (contexts (registerContext d r)) (ctx_id d) = Some d"
    by (simp add: Map_get_def contexts_registerContext update_conv')
  have two: "filter (\<lambda>c. ctx_id c = ctx_id d2)
      (Map_values (contexts (registerContext d2 (registerContext d1 r)))) = [d2]"
    if "ctx_id d1 = ctx_id d2"
    using that filter_id_update[OF ok, of d2]
    by (simp add: Map_values_def contexts_registerContext)
  have three: "filter (\<lambda>c. ctx_id c = ctx_id d2)
      (findContextsByType (registerContext d2 (registerContext d1 r)) (ctx_type d2)) = [d2]"
    if "ctx_id d1 = ctx_id d2"
  proof -
    let ?vs = "Map_values (contexts (registerContext d2 (registerContext d1 r)))"
    have "filter (\<lambda>c. ctx_id c = ctx_id d2) (filter (\<lambda>c. ctx_type c = ctx_type d2) ?vs)
        = filter (\<lambda>c. ctx_type c = ctx_type d2) (filter (\<lambda>c. ctx_id c = ctx_id d2) ?vs)"
      by (simp add: conj_commute)
    also have "\<dots> = [d2]" using two[OF that] by simp
    finally show ?thesis by (simp add: findContextsByType_def)
  qed
  from one ins two three show ?thesis by blast
qed

theorem registerContext_last_write_wins_witness:
  "reachable (registerContext jupiter_capitals ContextRouter_new)
   \<and> ctx_id jupiter_dex = ctx_id jupiter_v6
   \<and> filter (\<lambda>c. ctx_id c = ''jupiter-dex-v4'')
        (findContextsByType
          (registerContext jupiter_v6
            (registerContext jupiter_dex (registerContext jupiter_capitals ContextRouter_new)))
          DEX) = [jupiter_v6]
   \<and> findContextsByType
        (registerContext jupiter_v6
          (registerContext jupiter_dex (registerContext jupiter_capitals ContextRouter_new)))
        DEX = [jupiter_v6]"
proof -
  have r: "reachable (registerContext jupiter_capitals ContextRouter_new)"
    by (intro reachable_register reachable_new)
  have same: "ctx_id jupiter_dex = ctx_id jupiter_v6"
    by (simp add: jupiter_dex_def jupiter_v6_def)
  have i: "ctx_id jupiter_v6 = ''jupiter-dex-v4''" and t: "ctx_type jupiter_v6 = DEX"
    by (simp_all add: jupiter_dex_def jupiter_v6_def)
  from registerContext_last_write_wins[OF r, of jupiter_dex jupiter_dex jupiter_v6] same
  have "filter (\<lambda>c. ctx_id c = ctx_id jupiter_v6)
      (findContextsByType
        (registerContext jupiter_v6
          (registerContext jupiter_dex (registerContext jupiter_capitals ContextRouter_new)))
        (ctx_type jupiter_v6)) = [jupiter_v6]"
    by blast
  then have f: "filter (\<lambda>c. ctx_id c = ''jupiter-dex-v4'')
      (findContextsByType
        (registerContext jupiter_v6
          (registerContext jupiter_dex (registerContext jupiter_capitals ContextRouter_new)))
        DEX) = [jupiter_v6]"
    by (simp only: i t)
  have all: "findContextsByType
      (registerContext jupiter_v6
        (registerContext jupiter_dex (registerContext jupiter_capitals ContextRouter_new)))
      DEX = [jupiter_v6]"
    by code_simp
  from r same f all show ?thesis by blast
qed

section \<open>Capability queries\<close>

lemma collectMatches_filter:
  "collectMatches caps cs acc =
     acc @ filter (\<lambda>d. \<forall>cap \<in> set caps. \<exists>cc \<in> set (capabilities d).
                     toLowerCase cc = toLowerCase cap) cs"
  by (induction cs arbitrary: acc) (simp_all add: list_all_iff list_ex_iff)

text \<open>
  C2. \<open>findContextsByCapabilities\<close> returns the registered definitions, in the order of
  the registry, that have for each required capability a capability equal to it once both
  are lower-cased. It returns the empty list, and nothing else, when no registered
  definition is of that kind.
\<close>

theorem findContextsByCapabilities_exact:
  "findContextsByCapabilities r caps =
     filter (\<lambda>d. \<forall>cap \<in> set caps. \<exists>cc \<in> set (capabilities d).
                toLowerCase cc = toLowerCase cap)
       (Map_values (contexts r))
   \<and> (findContextsByCapabilities r caps = [] \<longleftrightarrow>
        (\<forall>d \<in> set (Map_values (contexts r)).
           \<not> (\<forall>cap \<in> set caps. \<exists>cc \<in> set (capabilities d).
                 toLowerCase cc = toLowerCase cap)))"
  by (simp add: findContextsByCapabilities_def collectMatches_filter filter_empty_conv)

theorem findContextsByCapabilities_exact_witness:
  "findContextsByCapabilities (registerContext jupiter_capitals ContextRouter_new)
      [''token_swaps'', ''ROUTE_optimization''] = [jupiter_capitals]
   \<and> findContextsByCapabilities (registerContext jupiter_dex ContextRouter_new)
      [''token_swaps'', ''governance_voting''] = []"
proof -
  have a: "filter (\<lambda>d. \<forall>cap \<in> set [''token_swaps'', ''ROUTE_optimization''].
               \<exists>cc \<in> set (capabilities d). toLowerCase cc = toLowerCase cap)
      (Map_values (contexts (registerContext jupiter_capitals ContextRouter_new)))
      = [jupiter_capitals]"
    by code_simp
  have b: "filter (\<lambda>d. \<forall>cap \<in> set [''token_swaps'', ''governance_voting''].
               \<exists>cc \<in> set (capabilities d). toLowerCase cc = toLowerCase cap)
      (Map_values (contexts (registerContext jupiter_dex ContextRouter_new))) = []"
    by code_simp
  from findContextsByCapabilities_exact[of "registerContext jupiter_capitals ContextRouter_new"
      "[''token_swaps'', ''ROUTE_optimization'']"] a
  have 1: "findContextsByCapabilities (registerContext jupiter_capitals ContextRouter_new)
      [''token_swaps'', ''ROUTE_optimization''] = [jupiter_capitals]"
    by (simp only:)
  from findContextsByCapabilities_exact[of "registerContext jupiter_dex ContextRouter_new"
      "[''token_swaps'', ''governance_voting'']"] b
  have 2: "findContextsByCapabilities (registerContext jupiter_dex ContextRouter_new)
      [''token_swaps'', ''governance_voting''] = []"
    by (simp only:)
  from 1 2 show ?thesis by blast
qed

text \<open>
  C6. With no capability required, \<open>findContextsByCapabilities\<close> returns every
  registered definition.
\<close>

theorem findContextsByCapabilities_no_requirement:
  "findContextsByCapabilities r [] = Map_values (contexts r)"
  by (simp add: findContextsByCapabilities_def collectMatches_filter)

section \<open>Permission check and routing\<close>

text \<open>
  C4. \<open>checkPermission\<close> returns false for a context id that is not registered. For a
  registered id it reads the agent's state and never returns false: an exception from
  \<open>getState\<close>, or from building the public key out of the state's \<open>agentId\<close>, is
  thrown on to the caller, and otherwise the result is true.
\<close>

theorem checkPermission_outcomes:
  "(Map_get (contexts r) contextId = None \<longrightarrow>
      checkPermission PublicKey_new r agent contextId = Inr False)
   \<and> (Map_get (contexts r) contextId \<noteq> None \<longrightarrow>
        checkPermission PublicKey_new r agent contextId \<noteq> Inr False
      \<and> (\<forall>e. getState agent = Inl e \<longrightarrow>
            checkPermission PublicKey_new r agent contextId = Inl e)
      \<and> (\<forall>agentState e. getState agent = Inr agentState
            \<and> PublicKey_new (getProp agentState ''agentId'') = Inl e \<longrightarrow>
            checkPermission PublicKey_new r agent contextId = Inl e)
      \<and> (\<forall>agentState key. getState agent = Inr agentState
            \<and> PublicKey_new (getProp agentState ''agentId'') = Inr key \<longrightarrow>
            checkPermission PublicKey_new r agent contextId = Inr True))"
  by (auto simp: checkPermission_def split: option.splits sum.splits)

theorem checkPermission_outcomes_witness:
  "Map_get (contexts (registerContext jupiter_dex ContextRouter_new)) ''raydium-amm'' = None
   \<and> checkPermission sample_PublicKey_new (registerContext jupiter_dex ContextRouter_new)
        (asAgent (\<lambda>k. k) sample_nft) ''raydium-amm'' = Inr False
   \<and> Map_get (contexts (registerContext jupiter_dex ContextRouter_new)) ''jupiter-dex-v4'' \<noteq> None
   \<and> getState sample_offline = Inl (Error ''state unavailable'')
   \<and> checkPermission sample_PublicKey_new (registerContext jupiter_dex ContextRouter_new)
        sample_offline ''jupiter-dex-v4'' = Inl (Error ''state unavailable'')
   \<and> getState sample_blank_id = Inr [(''agentId'', Str [])]
   \<and> sample_PublicKey_new (getProp [(''agentId'', Str [])] ''agentId'')
        = Inl (Error ''Invalid public key input'')
   \<and> checkPermission sample_PublicKey_new (registerContext jupiter_dex ContextRouter_new)
        sample_blank_id ''jupiter-dex-v4'' = Inl (Error ''Invalid public key input'')
   \<and> getState (asAgent (\<lambda>k. k) sample_nft) = Inr (getState_of (\<lambda>k. k) sample_nft)
   \<and> sample_PublicKey_new (getProp (getState_of (\<lambda>k. k) sample_nft) ''agentId'')
        = Inr ''7xKXtg2CW87d97TXJSDpbD5jBkheTqA83TZRuJosgAsU''
   \<and> checkPermission sample_PublicKey_new (registerContext jupiter_dex ContextRouter_new)
        (asAgent (\<lambda>k. k) sample_nft) ''jupiter-dex-v4'' = Inr True"
proof -
  let ?r = "registerContext jupiter_dex ContextRouter_new"
  let ?a = "asAgent (\<lambda>k. k) sample_nft"
  have none: "Map_get (contexts ?r) ''raydium-amm'' = None"
    by code_simp
  have some: "Map_get (contexts ?r) ''jupiter-dex-v4'' \<noteq> None"
    by code_simp
  have off: "getState sample_offline = Inl (Error ''state unavailable'')"
    by (simp add: sample_offline_def)
  have blank: "getState sample_blank_id = Inr [(''agentId'', Str [])]"
    by (simp add: sample_blank_id_def)
  have badkey: "sample_PublicKey_new (getProp [(''agentId'', Str [])] ''agentId'')
      = Inl (Error ''Invalid public key input'')"
    by code_simp
  have st: "getState ?a = Inr (getState_of (\<lambda>k. k) sample_nft)"
    by (simp add: asAgent_def)
  have key: "sample_PublicKey_new (getProp (getState_of (\<lambda>k. k) sample_nft) ''agentId'')
      = Inr ''7xKXtg2CW87d97TXJSDpbD5jBkheTqA83TZRuJosgAsU''"
    by code_simp
  from checkPermission_outcomes[of ?r "''raydium-amm''" sample_PublicKey_new ?a] none
  have 1: "checkPermission sample_PublicKey_new ?r ?a ''raydium-amm'' = Inr False"
    by blast
  from checkPermission_outcomes[of ?r "''jupiter-dex-v4''" sample_PublicKey_new sample_offline]
    some off
  have 2: "checkPermission sample_PublicKey_new ?r sample_offline ''jupiter-dex-v4''
      = Inl (Error ''state unavailable'')"
    by blast
  from checkPermission_outcomes[of ?r "''jupiter-dex-v4''" sample_PublicKey_new sample_blank_id]
    some blank badkey
  have 3: "checkPermission sample_PublicKey_new ?r sample_blank_id ''jupiter-dex-v4''
      = Inl (Error ''Invalid public key input'')"
    by blast
  from checkPermission_outcomes[of ?r "''jupiter-dex-v4''" sample_PublicKey_new ?a] some st key
  have 4: "checkPermission sample_PublicKey_new ?r ?a ''jupiter-dex-v4'' = Inr True"
    by blast
  from none 1 some off 2 blank badkey 3 st key 4 show ?thesis by blast
qed

text \<open>
  The claim as first worded, true for every agent on a registered id, fails for an
  agent whose \<open>getState\<close> rejects: the call throws and returns nothing.
\<close>

theorem checkPermission_rejecting_agent_counterexample:
  "Map_get (contexts (registerContext jupiter_dex ContextRouter_new)) ''jupiter-dex-v4''
     = Some jupiter_dex
   \<and> checkPermission sample_PublicKey_new (registerContext jupiter_dex ContextRouter_new)
        sample_offline ''jupiter-dex-v4'' = Inl (Error ''state unavailable'')
   \<and> checkPermission sample_PublicKey_new (registerContext jupiter_dex ContextRouter_new)
        sample_offline ''jupiter-dex-v4'' \<noteq> Inr True"
  by code_simp

text \<open>
  C9. When \<open>checkPermission\<close> returns true the context id is registered. So
  \<open>routeRequest\<close> never throws its \<open>Context ... not found\<close> error, and for an id that
  is not registered it throws the permission error.
\<close>

theorem routeRequest_not_found_unreachable:
  "(checkPermission PublicKey_new r agent contextId = Inr True \<longrightarrow>
      Map_has (contexts r) contextId)
   \<and> routeRequest PublicKey_new pf r agent contextId request \<noteq> Inl (ContextNotFound c)
   \<and> (\<not> Map_has (contexts r) contextId \<longrightarrow>
        routeRequest PublicKey_new pf r agent contextId request
          = Inl (PermissionDenied (getName agent) contextId))"
  by (auto simp: routeRequest_def checkPermission_def Map_has_def Map_get_def
      split: option.splits sum.splits)

theorem routeRequest_not_found_unreachable_witness:
  "checkPermission sample_PublicKey_new (registerContext jupiter_dex ContextRouter_new)
      (asAgent (\<lambda>k. k) sample_defi) ''jupiter-dex-v4'' = Inr True
   \<and> Map_has (contexts (registerContext jupiter_dex ContextRouter_new)) ''jupiter-dex-v4''
   \<and> \<not> Map_has (contexts (registerContext jupiter_dex ContextRouter_new)) ''orca-whirlpool''
   \<and> routeRequest sample_PublicKey_new sample_platform
        (registerContext jupiter_dex ContextRouter_new) sample_offline ''orca-whirlpool''
        [(''inputMint'', Str ''SOL'')]
      = Inl (PermissionDenied ''Offline Agent'' ''orca-whirlpool'')"
proof -
  let ?r = "registerContext jupiter_dex ContextRouter_new"
  have granted: "checkPermission sample_PublicKey_new ?r (asAgent (\<lambda>k. k) sample_defi)
      ''jupiter-dex-v4'' = Inr True"
    by code_simp
  have absent: "\<not> Map_has (contexts ?r) ''orca-whirlpool''"
    by code_simp
  have nm: "getName sample_offline = ''Offline Agent''"
    by (simp add: sample_offline_def)
  from routeRequest_not_found_unreachable[of sample_PublicKey_new ?r
      "asAgent (\<lambda>k. k) sample_defi" "''jupiter-dex-v4''"] granted
  have 1: "Map_has (contexts ?r) ''jupiter-dex-v4''"
    by blast
  from routeRequest_not_found_unreachable[of sample_PublicKey_new ?r sample_offline
      "''orca-whirlpool''" sample_platform "[(''inputMint'', Str ''SOL'')]"] absent
  have "routeRequest sample_PublicKey_new sample_platform ?r sample_offline ''orca-whirlpool''
      [(''inputMint'', Str ''SOL'')]
      = Inl (PermissionDenied (getName sample_offline) ''orca-whirlpool'')"
    by blast
  then have 2: "routeRequest sample_PublicKey_new sample_platform ?r sample_offline
      ''orca-whirlpool'' [(''inputMint'', Str ''SOL'')]
      = Inl (PermissionDenied ''Offline Agent'' ''orca-whirlpool'')"
    by (simp only: nm)
  from granted 1 absent 2 show ?thesis by blast
qed

text \<open>
  C1. On a new router, where \<open>jupiter-dex-v4\<close> is not registered, \<open>routeRequest\<close> for
  that id throws the permission error, with its message about permission, and not the
  \<open>Context jupiter-dex-v4 not found\<close> error.
\<close>

theorem routeRequest_unregistered_throws_permission_error:
  "routeRequest sample_PublicKey_new sample_platform ContextRouter_new
      (asAgent (\<lambda>k. k) sample_defi) ''jupiter-dex-v4'' []
     = Inl (PermissionDenied ''Solana DeFi Agent'' ''jupiter-dex-v4'')
   \<and> thrown_of (PermissionDenied ''Solana DeFi Agent'' ''jupiter-dex-v4'')
     = Error ''Agent Solana DeFi Agent does not have permission to access context jupiter-dex-v4''
   \<and> routeRequest sample_PublicKey_new sample_platform ContextRouter_new
      (asAgent (\<lambda>k. k) sample_defi) ''jupiter-dex-v4'' []
     \<noteq> Inl (ContextNotFound ''jupiter-dex-v4'')"
  by code_simp

section \<open>Loading definitions\<close>

lemma loadFiles_stops:
  assumes "\<forall>f \<in> set pre. isContextFile f \<longrightarrow> (\<exists>d. readDefinition nd dir f = Inr d)"
    and "isContextFile file" and "readDefinition nd dir file = Inl e"
  shows "loadFiles nd dir (pre @ file # post) r
    = (Some e, fold registerContext (definitionsOf nd dir pre) r)"
  using assms by (induction pre arbitrary: r) (auto split: sum.splits)

lemma loadFiles_fails:
  "\<exists>f \<in> set files. isContextFile f \<and> (\<exists>e. readDefinition nd dir f = Inl e) \<Longrightarrow>
     \<exists>e. fst (loadFiles nd dir files r) = Some e"
proof (induction files arbitrary: r)
  case Nil
  then show ?case by simp
next
  case (Cons f fs)
  show ?case
  proof (cases "isContextFile f")
    case False
    with Cons.prems
    have "\<exists>g \<in> set fs. isContextFile g \<and> (\<exists>e. readDefinition nd dir g = Inl e)"
      by auto
    from Cons.IH[OF this] False show ?thesis by simp
  next
    case True
    show ?thesis
    proof (cases "readDefinition nd dir f")
      case (Inl e)
      with True show ?thesis by simp
    next
      case (Inr d)
      with Cons.prems
      have "\<exists>g \<in> set fs. isContextFile g \<and> (\<exists>e. readDefinition nd dir g = Inl e)"
        by auto
      from Cons.IH[OF this] True Inr show ?thesis by simp
    qed
  qed
qed

text \<open>
  C7. \<open>loadContexts\<close> throws on to its caller when the directory cannot be listed (the
  registry is then as before) and when some recognized file cannot be read and parsed.
  It stops at the first such file: the registry then holds what the registrations of
  the definitions from the files before it leave, so each of their ids is registered,
  and so is every id registered before the call.
\<close>

theorem loadContexts_failure_keeps_partial_load:
  "(readdirSync nd dir = Inl e \<longrightarrow>
      fst (loadContexts nd dir r) = Inl e \<and> contexts (snd (loadContexts nd dir r)) = contexts r)
   \<and> (readdirSync nd dir = Inr files
        \<and> (\<exists>f \<in> set files. isContextFile f \<and> (\<exists>e'. readDefinition nd dir f = Inl e')) \<longrightarrow>
        (\<exists>e'. fst (loadContexts nd dir r) = Inl e'))
   \<and> (readdirSync nd dir = Inr (pre @ file # post)
        \<and> (\<forall>f \<in> set pre. isContextFile f \<longrightarrow> (\<exists>d. readDefinition nd dir f = Inr d))
        \<and> isContextFile file \<and> readDefinition nd dir file = Inl e \<longrightarrow>
        fst (loadContexts nd dir r) = Inl e
      \<and> contexts (snd (loadContexts nd dir r))
          = contexts (fold registerContext (definitionsOf nd dir pre) r)
      \<and> (\<forall>d \<in> set (definitionsOf nd dir pre).
            Map_has (contexts (snd (loadContexts nd dir r))) (ctx_id d))
      \<and> (\<forall>k. Map_has (contexts r) k \<longrightarrow> Map_has (contexts (snd (loadContexts nd dir r))) k))"
proof (intro conjI impI)
  assume "readdirSync nd dir = Inl e"
  then show "fst (loadContexts nd dir r) = Inl e"
    and "contexts (snd (loadContexts nd dir r)) = contexts r"
    by (simp_all add: loadContexts_def)
next
  assume a: "readdirSync nd dir = Inr files
    \<and> (\<exists>f \<in> set files. isContextFile f \<and> (\<exists>e'. readDefinition nd dir f = Inl e'))"
  then obtain e' where "fst (loadFiles nd dir files r) = Some e'"
    using loadFiles_fails[of files nd dir r] by blast
  with a show "\<exists>e'. fst (loadContexts nd dir r) = Inl e'"
    by (cases "loadFiles nd dir files r") (simp add: loadContexts_def)
next
  assume a: "readdirSync nd dir = Inr (pre @ file # post)
    \<and> (\<forall>f \<in> set pre. isContextFile f \<longrightarrow> (\<exists>d. readDefinition nd dir f = Inr d))
    \<and> isContextFile file \<and> readDefinition nd dir file = Inl e"
  then have lf: "loadFiles nd dir (pre @ file # post) r
      = (Some e, fold registerContext (definitionsOf nd dir pre) r)"
    by (simp add: loadFiles_stops)
  with a show res: "fst (loadContexts nd dir r) = Inl e"
    by (simp add: loadContexts_def)
  from a lf show ctx: "contexts (snd (loadContexts nd dir r))
      = contexts (fold registerContext (definitionsOf nd dir pre) r)"
    by (simp add: loadContexts_def)
  show "\<forall>d \<in> set (definitionsOf nd dir pre).
      Map_has (contexts (snd (loadContexts nd dir r))) (ctx_id d)"
    by (simp add: ctx Map_has_fold_registerContext)
  show "\<forall>k. Map_has (contexts r) k \<longrightarrow> Map_has (contexts (snd (loadContexts nd dir r))) k"
    by (simp add: ctx Map_has_fold_registerContext)
qed

theorem loadContexts_failure_keeps_partial_load_witness:
  "readdirSync sample_node ''missing'' = Inl (Error ''ENOENT: no such file or directory'')
   \<and> fst (loadContexts sample_node ''missing'' ContextRouter_new)
       = Inl (Error ''ENOENT: no such file or directory'')
   \<and> readdirSync sample_node ''contexts''
       = Inr ([''a-jupiter.yaml'', ''notes.txt''] @ ''broken.json'' # [''z-jupiter.yml''])
   \<and> isContextFile ''broken.json''
   \<and> readDefinition sample_node ''contexts'' ''broken.json''
       = Inl (Error ''Unexpected token } in JSON'')
   \<and> definitionsOf sample_node ''contexts'' [''a-jupiter.yaml'', ''notes.txt''] = [jupiter_dex]
   \<and> fst (loadContexts sample_node ''contexts'' ContextRouter_new)
       = Inl (Error ''Unexpected token } in JSON'')
   \<and> contexts (snd (loadContexts sample_node ''contexts'' ContextRouter_new))
       = contexts (registerContext jupiter_dex ContextRouter_new)
   \<and> Map_has (contexts (snd (loadContexts sample_node ''contexts'' ContextRouter_new)))
       ''jupiter-dex-v4''"
proof -
  let ?pre = "[''a-jupiter.yaml'', ''notes.txt'']"
  let ?post = "[''z-jupiter.yml'']"
  let ?e = "Error ''Unexpected token } in JSON''"
  let ?r' = "snd (loadContexts sample_node ''contexts'' ContextRouter_new)"
  have nolist: "readdirSync sample_node ''missing'' = Inl (Error ''ENOENT: no such file or directory'')"
    by (simp add: sample_node_def)
  have listing: "readdirSync sample_node ''contexts'' = Inr (?pre @ ''broken.json'' # ?post)"
    by (simp add: sample_node_def)
  have rec: "isContextFile ''broken.json''"
    by code_simp
  have bad: "readDefinition sample_node ''contexts'' ''broken.json'' = Inl ?e"
    by code_simp
  have d1: "readDefinition sample_node ''contexts'' ''a-jupiter.yaml'' = Inr jupiter_dex"
    by code_simp
  have d2: "\<not> isContextFile ''notes.txt''"
    by code_simp
  have good: "\<forall>f \<in> set ?pre. isContextFile f \<longrightarrow> (\<exists>d. readDefinition sample_node ''contexts'' f = Inr d)"
    using d1 d2 by simp
  have defs: "definitionsOf sample_node ''contexts'' ?pre = [jupiter_dex]"
    by code_simp
  have i: "ctx_id jupiter_dex = ''jupiter-dex-v4''"
    by (simp add: jupiter_dex_def)
  from loadContexts_failure_keeps_partial_load[of sample_node "''missing''"
      "Error ''ENOENT: no such file or directory''" ContextRouter_new] nolist
  have 1: "fst (loadContexts sample_node ''missing'' ContextRouter_new)
      = Inl (Error ''ENOENT: no such file or directory'')"
    by blast
  from loadContexts_failure_keeps_partial_load[of sample_node "''contexts''" ?e
      ContextRouter_new _ ?pre "''broken.json''" ?post] listing good rec bad
  have 2: "fst (loadContexts sample_node ''contexts'' ContextRouter_new) = Inl ?e"
    and 3: "contexts ?r'
      = contexts (fold registerContext (definitionsOf sample_node ''contexts'' ?pre) ContextRouter_new)"
    and 4: "\<forall>d \<in> set (definitionsOf sample_node ''contexts'' ?pre). Map_has (contexts ?r') (ctx_id d)"
    by blast+
  from 3 have kept: "contexts ?r' = contexts (registerContext jupiter_dex ContextRouter_new)"
    unfolding defs by simp
  from 4 have has: "Map_has (contexts ?r') ''jupiter-dex-v4''"
    unfolding defs by (simp add: i)
  from nolist 1 listing rec bad defs 2 kept has show ?thesis by blast
qed

end
